theory Spec2Isabelle
  imports Complex_Main
begin

section \<open>JavaScript values\<close>

text \<open>
  The form layer of the application is dynamically typed (\<open>values: any\<close>,
  \<open>error: any\<close>), so the values that flow through it are modelled as JavaScript values.
  Numbers are real numbers plus a separate \<open>NaN\<close>; strings are byte strings (the few
  non-ASCII literals of the source are written as their UTF-8 bytes); an object is an
  association list of its own properties.
\<close>

datatype jsval =
    JUndefined
  | JNull
  | JBool bool
  | JNum real
  | JNaN
  | JStr string
  | JArr "jsval list"
  | JObj "(string \<times> jsval) list"

text \<open>JavaScript's \<open>ToBoolean\<close>: what \<open>if (v)\<close>, \<open>v && w\<close> and \<open>v || w\<close> test.\<close>

fun truthy :: "jsval \<Rightarrow> bool" where
  "truthy JUndefined = False"
| "truthy JNull = False"
| "truthy (JBool b) = b"
| "truthy (JNum n) = (n \<noteq> 0)"
| "truthy JNaN = False"
| "truthy (JStr s) = (s \<noteq> [])"
| "truthy (JArr xs) = True"
| "truthy (JObj fs) = True"

text \<open>\<open>a || b\<close>\<close>

definition js_or :: "jsval \<Rightarrow> jsval \<Rightarrow> jsval" where
  "js_or a b = (if truthy a then a else b)"

text \<open>
  A plain object used as a record of named fields: a map from property names to values.
  Reading a property that the object does not have gives \<open>undefined\<close>.
\<close>

type_synonym jsobject = "string \<rightharpoonup> jsval"

definition field :: "jsobject \<Rightarrow> string \<Rightarrow> jsval" where
  "field obj k = (case obj k of None \<Rightarrow> JUndefined | Some v \<Rightarrow> v)"

text \<open>
  An input of the form is empty when nothing was entered: the form library reports an
  untouched or cleared input as \<open>undefined\<close>, \<open>null\<close> or the empty string.
\<close>

definition empty_input :: "jsval \<Rightarrow> bool" where
  "empty_input v = (v = JUndefined \<or> v = JNull \<or> v = JStr [])"


section \<open>Intake form: \<open>UserForm\<close>\<close>

text \<open>
  The three toggles of the optional score blocks (\<open>useState(false)\<close> each) and the
  value store of the form.
\<close>

record UserForm =
  hasLanguageScore :: bool
  hasGRE :: bool
  hasGMAT :: bool
  store :: jsobject

definition UserForm_init :: UserForm where
  "UserForm_init =
     \<lparr>hasLanguageScore = False, hasGRE = False, hasGMAT = False, store = Map.empty\<rparr>"

text \<open>The \<open>onClick\<close> handlers of the three toggle buttons.\<close>

definition toggleLanguageScore :: "UserForm \<Rightarrow> UserForm" where
  "toggleLanguageScore u = u\<lparr>hasLanguageScore := \<not> hasLanguageScore u\<rparr>"

definition toggleGRE :: "UserForm \<Rightarrow> UserForm" where
  "toggleGRE u = u\<lparr>hasGRE := \<not> hasGRE u\<rparr>"

definition toggleGMAT :: "UserForm \<Rightarrow> UserForm" where
  "toggleGMAT u = u\<lparr>hasGMAT := \<not> hasGMAT u\<rparr>"

text \<open>
  The profile, interface \<open>UserBackground\<close> of \<open>services/api\<close>. The form passes its
  values on unchecked, so a field holds a JavaScript value. A field that the interface
  marks optional is \<open>None\<close> while the object has no such property, and \<open>Some v\<close> once
  the property was assigned (also when \<open>v\<close> is \<open>undefined\<close>).
\<close>

record UserBackground =
  undergraduate_university :: jsval
  undergraduate_major :: jsval
  gpa :: jsval
  gpa_scale :: jsval
  graduation_year :: jsval
  language_test_type :: "jsval option"
  language_total_score :: "jsval option"
  language_reading :: "jsval option"
  language_listening :: "jsval option"
  language_speaking :: "jsval option"
  language_writing :: "jsval option"
  gre_total :: "jsval option"
  gre_verbal :: "jsval option"
  gre_quantitative :: "jsval option"
  gre_writing :: "jsval option"
  gmat_total :: "jsval option"
  target_countries :: jsval
  target_majors :: jsval
  target_degree_type :: jsval
  research_experiences :: "jsval option"
  internship_experiences :: "jsval option"
  other_experiences :: "jsval option"

text \<open>
  \<open>handleSubmit\<close> assembles the profile \<open>formData\<close> from the submitted \<open>values\<close> and hands
  it to \<open>onSubmit\<close>; the function below returns that \<open>formData\<close>. The object literal
  sets the eight required fields and the three experience lists; the score fields are
  assigned by the three conditionals. The \<open>catch\<close> branch of the source is not reachable
  from these statements: property reads on the \<open>values\<close> object and assignments to
  \<open>formData\<close> do not throw.
\<close>

definition handleSubmit :: "bool \<Rightarrow> bool \<Rightarrow> bool \<Rightarrow> jsobject \<Rightarrow> UserBackground" where
  "handleSubmit hasLanguageScore' hasGRE' hasGMAT' values =
     (let formData =
            \<lparr>undergraduate_university = field values ''undergraduate_university'',
             undergraduate_major = field values ''undergraduate_major'',
             gpa = field values ''gpa'',
             gpa_scale = field values ''gpa_scale'',
             graduation_year = field values ''graduation_year'',
             language_test_type = None,
             language_total_score = None,
             language_reading = None,
             language_listening = None,
             language_speaking = None,
             language_writing = None,
             gre_total = None,
             gre_verbal = None,
             gre_quantitative = None,
             gre_writing = None,
             gmat_total = None,
             target_countries = field values ''target_countries'',
             target_majors = field values ''target_majors'',
             target_degree_type = field values ''target_degree_type'',
             research_experiences =
               Some (js_or (field values ''research_experiences'') (JArr [])),
             internship_experiences =
               Some (js_or (field values ''internship_experiences'') (JArr [])),
             other_experiences =
               Some (js_or (field values ''other_experiences'') (JArr []))\<rparr>;
          formData =
            (if hasLanguageScore' \<and> truthy (field values ''language_test_type'')
                \<and> truthy (field values ''language_total_score'')
             then formData
                   \<lparr>language_test_type := Some (field values ''language_test_type''),
                    language_total_score := Some (field values ''language_total_score''),
                    language_reading := Some (field values ''language_reading''),
                    language_listening := Some (field values ''language_listening''),
                    language_speaking := Some (field values ''language_speaking''),
                    language_writing := Some (field values ''language_writing'')\<rparr>
             else formData);
          formData =
            (if hasGRE' \<and> truthy (field values ''gre_total'')
             then formData
                   \<lparr>gre_total := Some (field values ''gre_total''),
                    gre_verbal := Some (field values ''gre_verbal''),
                    gre_quantitative := Some (field values ''gre_quantitative''),
                    gre_writing := Some (field values ''gre_writing'')\<rparr>
             else formData);
          formData =
            (if hasGMAT' \<and> truthy (field values ''gmat_total'')
             then formData\<lparr>gmat_total := Some (field values ''gmat_total'')\<rparr>
             else formData)
      in formData)"

text \<open>
  What a \<open>Form.List\<close> of the form holds: \<open>undefined\<close> until the first entry is added,
  an array of the entries afterwards.
\<close>

fun list_input :: "jsval \<Rightarrow> bool" where
  "list_input JUndefined = True"
| "list_input (JArr entries) = True"
| "list_input v = False"

text \<open>
  The inputs that the form renders, in the order of the markup: every \<open>Form.Item\<close> and
  \<open>Form.List\<close> that carries a \<open>name\<close>. The inputs of an optional block are rendered only
  while its toggle is on. The GRE block renders two inputs, \<open>gre_total\<close> and
  \<open>gre_writing\<close>.
\<close>

definition form_items :: "UserForm \<Rightarrow> string list" where
  "form_items u =
     [''undergraduate_university'', ''undergraduate_major'', ''gpa'', ''gpa_scale'',
      ''graduation_year'']
     @ (if hasLanguageScore u
        then [''language_test_type'', ''language_total_score'', ''language_reading'',
              ''language_listening'', ''language_speaking'', ''language_writing'']
        else [])
     @ (if hasGRE u then [''gre_total'', ''gre_writing''] else [])
     @ (if hasGMAT u then [''gmat_total''] else [])
     @ [''target_countries'', ''target_majors'', ''target_degree_type'',
        ''research_experiences'', ''internship_experiences'', ''other_experiences'']"

text \<open>
  \<open>onFinish={handleSubmit}\<close>: on a successful submit the form library calls the handler
  with the values of the inputs that are currently rendered; a value that stays in the
  store for an input that is no longer rendered is not passed on.
\<close>

definition onFinish :: "UserForm \<Rightarrow> UserBackground" where
  "onFinish u =
     handleSubmit (hasLanguageScore u) (hasGRE u) (hasGMAT u)
       (store u |` set (form_items u))"


section \<open>Report model\<close>

text \<open>
  The report types of \<open>services/api\<close>. A field name that occurs in more than one
  interface carries a prefix in the later one (\<open>case_gpa\<close>, \<open>cmp_gpa\<close>, ...).
\<close>

record CompetitivenessAnalysis =
  strengths :: string
  weaknesses :: string
  summary :: string

record SchoolRecommendation =
  university :: string
  program :: string
  reason :: string

record SchoolRecommendations =
  reach :: "SchoolRecommendation list"
  target :: "SchoolRecommendation list"
  safety :: "SchoolRecommendation list"
  case_insights :: string

record CaseComparison =
  cmp_gpa :: string
  cmp_university :: string
  cmp_experience :: string

record CaseAnalysis =
  case_id :: int
  admitted_university :: string
  admitted_program :: string
  case_gpa :: string
  language_score :: string
  case_language_test_type :: "string option"
  key_experiences :: "string option"
  undergraduate_info :: string
  comparison :: CaseComparison
  success_factors :: string
  takeaways :: string

record ActionPlan =
  timeframe :: string
  action :: string
  goal :: string

record BackgroundImprovement =
  action_plan :: "ActionPlan list"
  strategy_summary :: string

text \<open>\<open>background_improvement: BackgroundImprovement | null\<close>\<close>

record AnalysisReport =
  competitiveness :: CompetitivenessAnalysis
  school_recommendations :: SchoolRecommendations
  similar_cases :: "CaseAnalysis list"
  background_improvement :: "BackgroundImprovement option"


section \<open>Orchestrator: \<open>App\<close>\<close>

datatype step = FormStep | ReportStep

text \<open>A toast shown through \<open>message.success\<close> or \<open>message.error\<close>.\<close>

datatype toast = Success jsval | Error jsval

text \<open>
  The three state cells of \<open>App\<close> together with the toasts shown so far.
\<close>

record App =
  currentStep :: step
  analysisReport :: "AnalysisReport option"
  loading :: bool
  messages :: "toast list"

definition App_init :: App where
  "App_init =
     \<lparr>currentStep = FormStep, analysisReport = None, loading = False, messages = []\<rparr>"

text \<open>The two message literals of \<open>handleFormSubmit\<close>, as UTF-8 bytes.\<close>

definition analysis_failed_text :: string where
  "analysis_failed_text =
     [CHR 0xE5, CHR 0x88, CHR 0x86, CHR 0xE6, CHR 0x9E, CHR 0x90, CHR 0xE5, CHR 0xA4,
      CHR 0xB1, CHR 0xE8, CHR 0xB4, CHR 0xA5, CHR 0xEF, CHR 0xBC, CHR 0x8C, CHR 0xE8,
      CHR 0xAF, CHR 0xB7, CHR 0xE7, CHR 0xA8, CHR 0x8D, CHR 0xE5, CHR 0x90, CHR 0x8E,
      CHR 0xE9, CHR 0x87, CHR 0x8D, CHR 0xE8, CHR 0xAF, CHR 0x95]"

definition analysis_done_text :: string where
  "analysis_done_text =
     [CHR 0xE5, CHR 0x88, CHR 0x86, CHR 0xE6, CHR 0x9E, CHR 0x90, CHR 0xE5, CHR 0xAE,
      CHR 0x8C, CHR 0xE6, CHR 0x88, CHR 0x90, CHR 0xEF, CHR 0xBC, CHR 0x81]"

text \<open>
  Property access on a caught value. \<open>v.k\<close> throws a \<open>TypeError\<close> (here \<open>None\<close>) when
  \<open>v\<close> is \<open>undefined\<close> or \<open>null\<close>; on an object it is the property or \<open>undefined\<close>; the
  property names read below (\<open>response\<close>, \<open>data\<close>, \<open>detail\<close>, \<open>message\<close>) are not built-in
  properties of numbers, booleans, strings or arrays, so there the result is
  \<open>undefined\<close>. \<open>v?.k\<close> is \<open>undefined\<close> when \<open>v\<close> is \<open>undefined\<close> or \<open>null\<close>.
\<close>

definition nullish :: "jsval \<Rightarrow> bool" where
  "nullish v = (v = JUndefined \<or> v = JNull)"

fun own :: "jsval \<Rightarrow> string \<Rightarrow> jsval" where
  "own (JObj fs) k = (case map_of fs k of None \<Rightarrow> JUndefined | Some v \<Rightarrow> v)"
| "own v k = JUndefined"

definition read_prop :: "jsval \<Rightarrow> string \<Rightarrow> jsval option" where
  "read_prop v k = (if nullish v then None else Some (own v k))"

definition read_opt :: "jsval \<Rightarrow> string \<Rightarrow> jsval option" where
  "read_opt v k = (if nullish v then Some JUndefined else read_prop v k)"

text \<open>
  The body of the \<open>catch\<close> block up to the call of \<open>message.error\<close>: the message that
  is surfaced, or \<open>None\<close> when reading the caught value throws.
\<close>

definition errorMessage :: "jsval \<Rightarrow> jsval option" where
  "errorMessage error =
     (case read_prop error ''response'' of
        None \<Rightarrow> None
      | Some response \<Rightarrow>
          (case read_opt response ''data'' of
             None \<Rightarrow> None
           | Some data \<Rightarrow>
               (case read_opt data ''detail'' of
                  None \<Rightarrow> None
                | Some detail \<Rightarrow>
                    if truthy detail then Some detail
                    else (case read_prop error ''message'' of
                            None \<Rightarrow> None
                          | Some msg \<Rightarrow>
                              if truthy msg then Some msg
                              else Some (JStr analysis_failed_text)))))"

text \<open>
  \<open>apiService.analyzeUserBackground\<close> posts the profile to \<open>/api/analyze\<close> and returns
  the response body, or rejects with the error of the HTTP client. The remote call
  \<open>post\<close> is a parameter.
\<close>

definition analyzeUserBackground ::
  "(string \<Rightarrow> UserBackground \<Rightarrow> jsval + AnalysisReport) \<Rightarrow> UserBackground
     \<Rightarrow> jsval + AnalysisReport"
where
  "analyzeUserBackground post userBackground =
     (case post ''/api/analyze'' userBackground of
        Inl error \<Rightarrow> Inl error
      | Inr response_data \<Rightarrow> Inr response_data)"

text \<open>
  \<open>handleFormSubmit\<close>, from the click to the end of the \<open>finally\<close> block. When the
  \<open>catch\<close> block itself throws, no toast is shown; \<open>finally\<close> runs in every case.
\<close>

definition handleFormSubmit ::
  "(string \<Rightarrow> UserBackground \<Rightarrow> jsval + AnalysisReport) \<Rightarrow> UserBackground \<Rightarrow> App
     \<Rightarrow> App"
where
  "handleFormSubmit post userBackground s =
     (let s = s\<lparr>loading := True\<rparr>;
          s = (case analyzeUserBackground post userBackground of
                 Inr report \<Rightarrow>
                   s\<lparr>analysisReport := Some report,
                     currentStep := ReportStep,
                     messages := messages s @ [Success (JStr analysis_done_text)]\<rparr>
               | Inl error \<Rightarrow>
                   (case errorMessage error of
                      None \<Rightarrow> s
                    | Some m \<Rightarrow> s\<lparr>messages := messages s @ [Error m]\<rparr>))
      in s\<lparr>loading := False\<rparr>)"

definition handleBackToForm :: "App \<Rightarrow> App" where
  "handleBackToForm s = s\<lparr>currentStep := FormStep, analysisReport := None\<rparr>"

text \<open>
  What \<open>App\<close> renders inside the spinner: the form while \<open>currentStep\<close> is \<open>'form'\<close>, the
  report while \<open>currentStep\<close> is \<open>'report'\<close> and a report is stored, nothing otherwise.
\<close>

datatype screen = UserFormScreen bool | AnalysisReportScreen AnalysisReport | NoScreen

definition render :: "App \<Rightarrow> screen" where
  "render s =
     (if currentStep s = FormStep then UserFormScreen (loading s)
      else (case analysisReport s of
              Some report \<Rightarrow> AnalysisReportScreen report
            | None \<Rightarrow> NoScreen))"

text \<open>
  A session is the state of \<open>App\<close> together with the state of the \<open>UserForm\<close> it
  renders. The form component holds its toggles and its value store for as long as it
  stays rendered: it is created fresh when the form screen appears and dropped when
  another screen replaces it.
\<close>

record session =
  app :: App
  form :: "UserForm option"

definition session_init :: session where
  "session_init = \<lparr>app = App_init, form = Some UserForm_init\<rparr>"

definition mount :: "App \<Rightarrow> UserForm option \<Rightarrow> UserForm option" where
  "mount s f =
     (case render s of
        UserFormScreen _ \<Rightarrow> (case f of None \<Rightarrow> Some UserForm_init | Some u \<Rightarrow> Some u)
      | _ \<Rightarrow> None)"

text \<open>
  The two user actions that reach \<open>App\<close>: a submission of the rendered form that its
  validation accepted (its \<open>onSubmit\<close> is \<open>handleFormSubmit\<close>) and the back button of the
  rendered report (its \<open>onBack\<close> is \<open>handleBackToForm\<close>). An action whose screen is not
  rendered does nothing.
\<close>

definition submit ::
  "(string \<Rightarrow> UserBackground \<Rightarrow> jsval + AnalysisReport) \<Rightarrow> session \<Rightarrow> session" where
  "submit post ss =
     (case form ss of
        None \<Rightarrow> ss
      | Some u \<Rightarrow>
          (let s = handleFormSubmit post (onFinish u) (app ss)
           in \<lparr>app = s, form = mount s (Some u)\<rparr>))"

definition press_back :: "session \<Rightarrow> session" where
  "press_back ss =
     (case render (app ss) of
        AnalysisReportScreen _ \<Rightarrow>
          (let s = handleBackToForm (app ss) in \<lparr>app = s, form = mount s (form ss)\<rparr>)
      | _ \<Rightarrow> ss)"

text \<open>Editing the rendered form changes only the form.\<close>

definition edit :: "(UserForm \<Rightarrow> UserForm) \<Rightarrow> session \<Rightarrow> session" where
  "edit f ss = ss\<lparr>form := map_option f (form ss)\<rparr>"

inductive reachable :: "session \<Rightarrow> bool" where
  reach_init: "reachable session_init"
| reach_edit: "reachable ss \<Longrightarrow> reachable (edit f ss)"
| reach_submit: "reachable ss \<Longrightarrow> reachable (submit post ss)"
| reach_back: "reachable ss \<Longrightarrow> reachable (press_back ss)"


section \<open>Report renderer: \<open>AnalysisReport\<close>\<close>

text \<open>
  The data and options of the radar chart. Both are constants declared in the body of
  the component, in the scope of its \<open>report\<close> property.
\<close>

record RadarDataset =
  label :: string
  data :: "int list"
  backgroundColor :: string
  borderColor :: string
  borderWidth :: int
  pointBackgroundColor :: string

record RadarData =
  labels :: "string list"
  datasets :: "RadarDataset list"

record RadarOptions =
  responsive :: bool
  legend_position :: string
  beginAtZero :: bool
  scale_max :: int
  stepSize :: int

text \<open>The literals of the component, as UTF-8 bytes.\<close>

definition label_academic :: string where
  "label_academic =
     [CHR 0xE5, CHR 0xAD, CHR 0xA6, CHR 0xE6, CHR 0x9C, CHR 0xAF, CHR 0xE8, CHR 0x83,
      CHR 0xBD, CHR 0xE5, CHR 0x8A, CHR 0x9B]"

definition label_language :: string where
  "label_language =
     [CHR 0xE8, CHR 0xAF, CHR 0xAD, CHR 0xE8, CHR 0xA8, CHR 0x80, CHR 0xE8, CHR 0x83,
      CHR 0xBD, CHR 0xE5, CHR 0x8A, CHR 0x9B]"

definition label_research :: string where
  "label_research =
     [CHR 0xE7, CHR 0xA7, CHR 0x91, CHR 0xE7, CHR 0xA0, CHR 0x94, CHR 0xE8, CHR 0x83,
      CHR 0x8C, CHR 0xE6, CHR 0x99, CHR 0xAF]"

definition label_internship :: string where
  "label_internship =
     [CHR 0xE5, CHR 0xAE, CHR 0x9E, CHR 0xE4, CHR 0xB9, CHR 0xA0, CHR 0xE8, CHR 0x83,
      CHR 0x8C, CHR 0xE6, CHR 0x99, CHR 0xAF]"

definition label_institution :: string where
  "label_institution =
     [CHR 0xE9, CHR 0x99, CHR 0xA2, CHR 0xE6, CHR 0xA0, CHR 0xA1, CHR 0xE8, CHR 0x83,
      CHR 0x8C, CHR 0xE6, CHR 0x99, CHR 0xAF]"

definition label_overall :: string where
  "label_overall =
     [CHR 0xE7, CHR 0xBB, CHR 0xBC, CHR 0xE5, CHR 0x90, CHR 0x88, CHR 0xE7, CHR 0xAB,
      CHR 0x9E, CHR 0xE4, CHR 0xBA, CHR 0x89, CHR 0xE5, CHR 0x8A, CHR 0x9B]"

definition title_radar :: string where
  "title_radar =
     [CHR 0xE7, CHR 0xBB, CHR 0xBC, CHR 0xE5, CHR 0x90, CHR 0x88, CHR 0xE7, CHR 0xAB,
      CHR 0x9E, CHR 0xE4, CHR 0xBA, CHR 0x89, CHR 0xE5, CHR 0x8A, CHR 0x9B, CHR 0xE9,
      CHR 0x9B, CHR 0xB7, CHR 0xE8, CHR 0xBE, CHR 0xBE, CHR 0xE5, CHR 0x9B, CHR 0xBE]"

definition title_strengths :: string where
  "title_strengths =
     [CHR 0xE6, CHR 0xA0, CHR 0xB8, CHR 0xE5, CHR 0xBF, CHR 0x83, CHR 0xE4, CHR 0xBC,
      CHR 0x98, CHR 0xE5, CHR 0x8A, CHR 0xBF]"

definition title_weaknesses :: string where
  "title_weaknesses =
     [CHR 0xE4, CHR 0xB8, CHR 0xBB, CHR 0xE8, CHR 0xA6, CHR 0x81, CHR 0xE7, CHR 0x9F,
      CHR 0xAD, CHR 0xE6, CHR 0x9D, CHR 0xBF]"

definition title_summary :: string where
  "title_summary =
     [CHR 0xE7, CHR 0xBB, CHR 0xBC, CHR 0xE5, CHR 0x90, CHR 0x88, CHR 0xE8, CHR 0xAF,
      CHR 0x84, CHR 0xE4, CHR 0xBB, CHR 0xB7]"

definition unavailable_text :: string where
  "unavailable_text =
     [CHR 0xE8, CHR 0x83, CHR 0x8C, CHR 0xE6, CHR 0x99, CHR 0xAF, CHR 0xE6, CHR 0x8F,
      CHR 0x90, CHR 0xE5, CHR 0x8D, CHR 0x87, CHR 0xE5, CHR 0xBB, CHR 0xBA, CHR 0xE8,
      CHR 0xAE, CHR 0xAE, CHR 0xE6, CHR 0x9A, CHR 0x82, CHR 0xE6, CHR 0x97, CHR 0xB6,
      CHR 0xE6, CHR 0x97, CHR 0xA0, CHR 0xE6, CHR 0xB3, CHR 0x95, CHR 0xE7, CHR 0x94,
      CHR 0x9F, CHR 0xE6, CHR 0x88, CHR 0x90]"

definition action_label :: string where
  "action_label =
     [CHR 0xE8, CHR 0xA1, CHR 0x8C, CHR 0xE5, CHR 0x8A, CHR 0xA8, CHR 0xE8, CHR 0xAE,
      CHR 0xA1, CHR 0xE5, CHR 0x88, CHR 0x92, CHR 0xEF, CHR 0xBC, CHR 0x9A]"

definition goal_label :: string where
  "goal_label =
     [CHR 0xE9, CHR 0xA2, CHR 0x84, CHR 0xE6, CHR 0x9C, CHR 0x9F, CHR 0xE7, CHR 0x9B,
      CHR 0xAE, CHR 0xE6, CHR 0xA0, CHR 0x87, CHR 0xEF, CHR 0xBC, CHR 0x9A]"

definition title_strategy :: string where
  "title_strategy =
     [CHR 0xE6, CHR 0x80, CHR 0xBB, CHR 0xE4, CHR 0xBD, CHR 0x93, CHR 0xE7, CHR 0xAD,
      CHR 0x96, CHR 0xE7, CHR 0x95, CHR 0xA5, CHR 0xE5, CHR 0xBB, CHR 0xBA, CHR 0xE8,
      CHR 0xAE, CHR 0xAE]"

definition radarData :: "AnalysisReport \<Rightarrow> RadarData" where
  "radarData report =
     \<lparr>labels = [label_academic, label_language, label_research, label_internship,
                label_institution],
      datasets =
        [\<lparr>label = label_overall,
          data = [75, 60, 45, 50, 80],
          backgroundColor = ''rgba(54, 162, 235, 0.2)'',
          borderColor = ''rgba(54, 162, 235, 1)'',
          borderWidth = 2,
          pointBackgroundColor = ''rgba(54, 162, 235, 1)''\<rparr>]\<rparr>"

definition radarOptions :: "AnalysisReport \<Rightarrow> RadarOptions" where
  "radarOptions report =
     \<lparr>responsive = True, legend_position = ''top'', beginAtZero = True,
      scale_max = 100, stepSize = 20\<rparr>"

text \<open>
  Rendered markup: a text node, an element with its string-valued properties and its
  children, or the radar chart with its data and options. A title that the source gives
  as markup is the first child of its card, inside a \<open>title\<close> element; the \<open>key\<close> and the
  layout properties (\<open>gutter\<close>, \<open>xs\<close>, \<open>lg\<close>, \<open>style\<close>) are left out.
\<close>

datatype vnode =
    Text string
  | Elem string "(string \<times> string) list" "vnode list"
  | Radar RadarData RadarOptions

text \<open>The text nodes of a tree, in document order.\<close>

fun texts :: "vnode \<Rightarrow> string list" where
  "texts (Text s) = [s]"
| "texts (Elem tag props children) = concat (map texts children)"
| "texts (Radar d opts) = []"

text \<open>The radar charts of a tree, in document order.\<close>

fun radars :: "vnode \<Rightarrow> (RadarData \<times> RadarOptions) list" where
  "radars (Text s) = []"
| "radars (Elem tag props children) = concat (map radars children)"
| "radars (Radar d opts) = [(d, opts)]"

text \<open>The content of the first tab (\<open>tabItems[0].children\<close>).\<close>

definition competitiveness_tab :: "AnalysisReport \<Rightarrow> vnode" where
  "competitiveness_tab report =
     Elem ''Row'' []
       [Elem ''Col'' []
          [Elem ''Card'' [(''title'', title_radar), (''size'', ''small'')]
             [Elem ''div'' [] [Radar (radarData report) (radarOptions report)]]],
        Elem ''Col'' []
          [Elem ''Space'' [(''direction'', ''vertical'')]
             [Elem ''Card'' [(''size'', ''small'')]
                [Elem ''title'' []
                   [Elem ''Space'' [] [Elem ''TrophyOutlined'' [] [], Text title_strengths]],
                 Elem ''Paragraph'' [] [Text (strengths (competitiveness report))]],
              Elem ''Card'' [(''size'', ''small'')]
                [Elem ''title'' []
                   [Elem ''Space'' [] [Elem ''WarningOutlined'' [] [], Text title_weaknesses]],
                 Elem ''Paragraph'' [] [Text (weaknesses (competitiveness report))]]]],
        Elem ''Col'' []
          [Elem ''Card'' [(''title'', title_summary), (''size'', ''small'')]
             [Elem ''Paragraph'' [] [Text (summary (competitiveness report))]]]]"

text \<open>One entry of the timeline: the body of the \<open>map\<close> callback.\<close>

definition plan_item :: "ActionPlan \<Rightarrow> vnode" where
  "plan_item plan =
     Elem ''Timeline.Item'' []
       [Elem ''Card'' [(''size'', ''small'')]
          [Elem ''Title'' [(''level'', ''5'')] [Text (timeframe plan)],
           Elem ''Paragraph'' []
             [Elem ''Text'' [(''strong'', ''true'')] [Text action_label], Text (action plan)],
           Elem ''Paragraph'' []
             [Elem ''Text'' [(''strong'', ''true'')] [Text goal_label], Text (goal plan)]]]"

definition renderBackgroundImprovement :: "AnalysisReport \<Rightarrow> vnode" where
  "renderBackgroundImprovement report =
     (case background_improvement report of
        None \<Rightarrow> Elem ''Alert'' [(''message'', unavailable_text), (''type'', ''info'')] []
      | Some improvement \<Rightarrow>
          Elem ''Space'' [(''direction'', ''vertical'')]
            [Elem ''Timeline'' [] (map plan_item (action_plan improvement)),
             Elem ''Divider'' [] [],
             Elem ''Card'' [(''title'', title_strategy), (''size'', ''small'')]
               [Elem ''Paragraph'' [] [Text (strategy_summary improvement)]]])"


section \<open>Document exporter: \<open>downloadPDF\<close>\<close>

text \<open>
  The document under construction: the finished pages and the current page, each page
  the list of images drawn on it. An image is drawn with its data, its format and its
  \<open>x\<close>, \<open>y\<close>, width and height in millimetres. A new document has one empty page;
  \<open>addImage\<close> draws on the current page; \<open>addPage\<close> starts a new current page.
\<close>

datatype drawn = Image string string real real real real

record pdf =
  finished :: "drawn list list"
  current :: "drawn list"

definition pages :: "pdf \<Rightarrow> drawn list list" where
  "pages doc = finished doc @ [current doc]"

definition jsPDF :: pdf where
  "jsPDF = \<lparr>finished = [], current = []\<rparr>"

definition addImage :: "drawn \<Rightarrow> pdf \<Rightarrow> pdf" where
  "addImage d doc = doc\<lparr>current := current doc @ [d]\<rparr>"

definition addPage :: "pdf \<Rightarrow> pdf" where
  "addPage doc = \<lparr>finished = finished doc @ [current doc], current = []\<rparr>"

definition imgWidth :: real where
  "imgWidth = 210"

definition pageHeight :: real where
  "pageHeight = 295"

text \<open>
  The \<open>while\<close> loop of \<open>downloadPDF\<close>, on the variables \<open>heightLeft\<close> and \<open>pdf\<close> (\<open>position\<close>
  is assigned before each use). Numbers are exact reals; on whole numbers of
  millimetres, as in the evaluations below, the arithmetic of the source is exact too.
\<close>

function add_pages :: "real \<Rightarrow> real \<Rightarrow> string \<Rightarrow> pdf \<Rightarrow> pdf" where
  "add_pages heightLeft imgHeight imgData doc =
     (if heightLeft \<ge> 0
      then (let position = heightLeft - imgHeight;
                doc = addPage doc;
                doc = addImage (Image imgData ''PNG'' 0 position imgWidth imgHeight) doc
            in add_pages (heightLeft - pageHeight) imgHeight imgData doc)
      else doc)"
  by pat_completeness auto
termination
proof (relation "measure (\<lambda>(heightLeft, imgHeight, imgData, doc). nat (\<lfloor>heightLeft\<rfloor> + 1))")
  show "wf (measure (\<lambda>(heightLeft, imgHeight, imgData, doc :: pdf).
              nat (\<lfloor>heightLeft :: real\<rfloor> + 1)))"
    by simp
next
  fix heightLeft imgHeight :: real and imgData :: string and doc doc' :: pdf
  assume nonneg: "0 \<le> heightLeft"
  have "\<lfloor>heightLeft - pageHeight\<rfloor> = \<lfloor>heightLeft\<rfloor> - 295"
    unfolding pageHeight_def by linarith
  moreover have "0 \<le> \<lfloor>heightLeft\<rfloor>"
    using nonneg by simp
  ultimately show
    "((heightLeft - pageHeight, imgHeight, imgData, doc'), heightLeft, imgHeight, imgData, doc)
       \<in> measure (\<lambda>(heightLeft, imgHeight, imgData, doc). nat (\<lfloor>heightLeft\<rfloor> + 1))"
    by simp
qed

declare add_pages.simps [simp del]

text \<open>
  The pagination stage of \<open>downloadPDF\<close>: from the creation of the document to the end
  of the loop, for an image of height \<open>imgHeight\<close>.
\<close>

definition paginate :: "string \<Rightarrow> real \<Rightarrow> pdf" where
  "paginate imgData imgHeight =
     (let doc = jsPDF;
          heightLeft = imgHeight;
          position = 0;
          doc = addImage (Image imgData ''PNG'' 0 position imgWidth imgHeight) doc;
          heightLeft = heightLeft - pageHeight
      in add_pages heightLeft imgHeight imgData doc)"

text \<open>
  The environment of the exporter: the element behind \<open>reportRef\<close>, the capture
  (\<open>html2canvas\<close>, which may throw) and the encoding of the canvas (\<open>toDataURL\<close>, which
  may throw).
\<close>

record element =
  scrollWidth :: nat
  scrollHeight :: nat

record capture_options =
  useCORS :: bool
  allowTaint :: bool
  opt_width :: nat
  opt_height :: nat

record canvas =
  width :: nat
  height :: nat

record browser =
  html2canvas :: "element \<Rightarrow> capture_options \<Rightarrow> jsval + canvas"
  toDataURL :: "canvas \<Rightarrow> string \<Rightarrow> jsval + string"

definition pdf_file_name :: string where
  "pdf_file_name =
     [CHR 0xE7, CHR 0x95, CHR 0x99, CHR 0xE5, CHR 0xAD, CHR 0xA6, CHR 0xE5, CHR 0x88,
      CHR 0x86, CHR 0xE6, CHR 0x9E, CHR 0x90, CHR 0xE6, CHR 0x8A, CHR 0xA5, CHR 0xE5,
      CHR 0x91, CHR 0x8A, CHR 0x2E, CHR 0x70, CHR 0x64, CHR 0x66]"

definition pdf_failed_text :: string where
  "pdf_failed_text =
     [CHR 0x50, CHR 0x44, CHR 0x46, CHR 0xE7, CHR 0x94, CHR 0x9F, CHR 0xE6, CHR 0x88,
      CHR 0x90, CHR 0xE5, CHR 0xA4, CHR 0xB1, CHR 0xE8, CHR 0xB4, CHR 0xA5, CHR 0x3A]"

text \<open>
  What the exporter can affect: the session, the files saved so far and the errors
  written to the console.
\<close>

record world =
  ui :: session
  saved :: "(string \<times> pdf) list"
  console_errors :: "(string \<times> jsval) list"

text \<open>
  \<open>downloadPDF\<close>. A canvas of width 0 makes \<open>imgHeight\<close> a non-finite number, which this
  model of numbers does not cover: the result is \<open>None\<close> there.
\<close>

definition downloadPDF :: "browser \<Rightarrow> element option \<Rightarrow> world \<Rightarrow> world option" where
  "downloadPDF env reportRef w =
     (case reportRef of
        None \<Rightarrow> Some w
      | Some el \<Rightarrow>
          (case html2canvas env el
                  \<lparr>useCORS = True, allowTaint = True,
                   opt_width = scrollWidth el * 2, opt_height = scrollHeight el * 2\<rparr> of
             Inl error \<Rightarrow>
               Some (w\<lparr>console_errors := console_errors w @ [(pdf_failed_text, error)]\<rparr>)
           | Inr cv \<Rightarrow>
               (case toDataURL env cv ''image/png'' of
                  Inl error \<Rightarrow>
                    Some (w\<lparr>console_errors :=
                               console_errors w @ [(pdf_failed_text, error)]\<rparr>)
                | Inr imgData \<Rightarrow>
                    if width cv = 0 then None
                    else (let imgHeight = (real (height cv) * imgWidth) / real (width cv);
                              doc = paginate imgData imgHeight
                          in Some (w\<lparr>saved := saved w @ [(pdf_file_name, doc)]\<rparr>)))))"


section \<open>Example inputs\<close>

text \<open>Concrete inputs on which the theorems below are evaluated.\<close>

definition example_plans :: "ActionPlan list" where
  "example_plans =
     [\<lparr>timeframe = ''Month 1-3'', action = ''Retake the language test'',
       goal = ''Total score above 100''\<rparr>,
      \<lparr>timeframe = ''Month 4-6'', action = ''Join a research project'',
       goal = ''One submitted paper''\<rparr>]"

definition example_report :: AnalysisReport where
  "example_report =
     \<lparr>competitiveness =
        \<lparr>strengths = ''High GPA'', weaknesses = ''No research'', summary = ''Solid''\<rparr>,
      school_recommendations =
        \<lparr>reach = [], target = [], safety = [], case_insights = ''None yet''\<rparr>,
      similar_cases = [],
      background_improvement =
        Some \<lparr>action_plan = example_plans, strategy_summary = ''Research first''\<rparr>\<rparr>"

definition post_ok :: "string \<Rightarrow> UserBackground \<Rightarrow> jsval + AnalysisReport" where
  "post_ok url body = Inr example_report"

definition quota_error :: jsval where
  "quota_error =
     JObj [(''message'', JStr ''Request failed with status code 429''),
           (''response'', JObj [(''data'', JObj [(''detail'', JStr ''quota exceeded'')])])]"

definition timeout_error :: jsval where
  "timeout_error = JObj [(''message'', JStr ''timeout of 300000ms exceeded'')]"

definition post_timeout :: "string \<Rightarrow> UserBackground \<Rightarrow> jsval + AnalysisReport" where
  "post_timeout url body = Inl timeout_error"

text \<open>
  A form with the GRE block switched on and both of its inputs filled in, next to the
  required fields.
\<close>

definition gre_form :: UserForm where
  "gre_form =
     \<lparr>hasLanguageScore = False, hasGRE = True, hasGMAT = False,
      store =
        [''undergraduate_university'' \<mapsto> JStr ''PKU'',
         ''undergraduate_major'' \<mapsto> JStr ''CS'',
         ''gpa'' \<mapsto> JNum 88,
         ''gpa_scale'' \<mapsto> JStr ''100'',
         ''graduation_year'' \<mapsto> JNum 2025,
         ''target_countries'' \<mapsto> JArr [JStr ''US''],
         ''target_majors'' \<mapsto> JArr [JStr ''CS''],
         ''target_degree_type'' \<mapsto> JStr ''Master'',
         ''gre_total'' \<mapsto> JNum 320,
         ''gre_writing'' \<mapsto> JNum 4]\<rparr>"

definition one_research :: jsval where
  "one_research =
     JArr [JObj [(''name'', JStr ''Vision lab''), (''role'', JStr ''Member''),
                 (''description'', JStr ''Image retrieval'')]]"

text \<open>
  Submitted values that hold scores of all three blocks, next to the required fields
  and one research entry.
\<close>

definition stale_values :: jsobject where
  "stale_values =
     [''undergraduate_university'' \<mapsto> JStr ''PKU'',
      ''undergraduate_major'' \<mapsto> JStr ''CS'',
      ''gpa'' \<mapsto> JNum 88,
      ''gpa_scale'' \<mapsto> JStr ''100'',
      ''graduation_year'' \<mapsto> JNum 2025,
      ''target_countries'' \<mapsto> JArr [JStr ''US''],
      ''target_majors'' \<mapsto> JArr [JStr ''CS''],
      ''target_degree_type'' \<mapsto> JStr ''Master'',
      ''language_test_type'' \<mapsto> JStr ''TOEFL'',
      ''language_total_score'' \<mapsto> JNum 105,
      ''research_experiences'' \<mapsto> one_research,
      ''gre_total'' \<mapsto> JNum 320,
      ''gmat_total'' \<mapsto> JNum 700]"

text \<open>The session after the user filled in the form.\<close>

definition filled_session :: session where
  "filled_session = edit (\<lambda>u. gre_form) session_init"

text \<open>
  A browser whose capture gives a canvas of the requested size, one whose capture
  throws, and a report element of 210 by 590 pixels.
\<close>

definition browser_ok :: browser where
  "browser_ok =
     \<lparr>html2canvas = (\<lambda>el opts. Inr \<lparr>width = opt_width opts, height = opt_height opts\<rparr>),
      toDataURL = (\<lambda>cv type. Inr ''data:image/png;base64,'')\<rparr>"

definition browser_tainted :: browser where
  "browser_tainted =
     \<lparr>html2canvas = (\<lambda>el opts. Inl (JStr ''SecurityError'')),
      toDataURL = (\<lambda>cv type. Inr ''data:image/png;base64,'')\<rparr>"

definition report_element :: element where
  "report_element = \<lparr>scrollWidth = 210, scrollHeight = 590\<rparr>"

definition report_world :: world where
  "report_world = \<lparr>ui = submit post_ok filled_session, saved = [], console_errors = []\<rparr>"


section \<open>The assembled profile\<close>

lemma truthy_not_empty: "truthy v \<Longrightarrow> \<not> empty_input v"
  by (cases v) (auto simp: empty_input_def)

text \<open>
  Claim C2. The fields of an optional score block (language test, GRE, GMAT) are in
  the assembled profile only when the toggle of the block is on and its trigger inputs
  (test type and total score for the language test, total score for the other two) are
  not empty. So a block with an empty trigger input is left out although its toggle is
  on, and a block that was switched off is left out whatever the form still holds for
  its inputs.
\<close>

theorem optional_blocks_gated:
  "(\<not> (l \<and> \<not> empty_input (field values ''language_test_type'')
          \<and> \<not> empty_input (field values ''language_total_score''))
      \<longrightarrow> language_test_type (handleSubmit l g m values) = None
        \<and> language_total_score (handleSubmit l g m values) = None
        \<and> language_reading (handleSubmit l g m values) = None
        \<and> language_listening (handleSubmit l g m values) = None
        \<and> language_speaking (handleSubmit l g m values) = None
        \<and> language_writing (handleSubmit l g m values) = None)
   \<and> (\<not> (g \<and> \<not> empty_input (field values ''gre_total''))
      \<longrightarrow> gre_total (handleSubmit l g m values) = None
        \<and> gre_verbal (handleSubmit l g m values) = None
        \<and> gre_quantitative (handleSubmit l g m values) = None
        \<and> gre_writing (handleSubmit l g m values) = None)
   \<and> (\<not> (m \<and> \<not> empty_input (field values ''gmat_total''))
      \<longrightarrow> gmat_total (handleSubmit l g m values) = None)
   \<and> (hasLanguageScore u
      \<longrightarrow> language_test_type (onFinish (toggleLanguageScore u)) = None
        \<and> language_total_score (onFinish (toggleLanguageScore u)) = None
        \<and> language_reading (onFinish (toggleLanguageScore u)) = None
        \<and> language_listening (onFinish (toggleLanguageScore u)) = None
        \<and> language_speaking (onFinish (toggleLanguageScore u)) = None
        \<and> language_writing (onFinish (toggleLanguageScore u)) = None)
   \<and> (hasGRE u
      \<longrightarrow> gre_total (onFinish (toggleGRE u)) = None
        \<and> gre_verbal (onFinish (toggleGRE u)) = None
        \<and> gre_quantitative (onFinish (toggleGRE u)) = None
        \<and> gre_writing (onFinish (toggleGRE u)) = None)
   \<and> (hasGMAT u \<longrightarrow> gmat_total (onFinish (toggleGMAT u)) = None)"
proof -
  have language_off: "language_test_type (handleSubmit l' g' m' v) = None
      \<and> language_total_score (handleSubmit l' g' m' v) = None
      \<and> language_reading (handleSubmit l' g' m' v) = None
      \<and> language_listening (handleSubmit l' g' m' v) = None
      \<and> language_speaking (handleSubmit l' g' m' v) = None
      \<and> language_writing (handleSubmit l' g' m' v) = None"
    if "\<not> (l' \<and> truthy (field v ''language_test_type'')
             \<and> truthy (field v ''language_total_score''))" for l' g' m' v
    using that by (auto simp: handleSubmit_def Let_def)
  have gre_off: "gre_total (handleSubmit l' g' m' v) = None
      \<and> gre_verbal (handleSubmit l' g' m' v) = None
      \<and> gre_quantitative (handleSubmit l' g' m' v) = None
      \<and> gre_writing (handleSubmit l' g' m' v) = None"
    if "\<not> (g' \<and> truthy (field v ''gre_total''))" for l' g' m' v
    using that by (auto simp: handleSubmit_def Let_def)
  have gmat_off: "gmat_total (handleSubmit l' g' m' v) = None"
    if "\<not> (m' \<and> truthy (field v ''gmat_total''))" for l' g' m' v
    using that by (auto simp: handleSubmit_def Let_def)
  have c1: "\<not> (l \<and> \<not> empty_input (field values ''language_test_type'')
          \<and> \<not> empty_input (field values ''language_total_score''))
      \<Longrightarrow> \<not> (l \<and> truthy (field values ''language_test_type'')
             \<and> truthy (field values ''language_total_score''))"
    using truthy_not_empty by blast
  have c2: "\<not> (g \<and> \<not> empty_input (field values ''gre_total''))
      \<Longrightarrow> \<not> (g \<and> truthy (field values ''gre_total''))"
    using truthy_not_empty by blast
  have c3: "\<not> (m \<and> \<not> empty_input (field values ''gmat_total''))
      \<Longrightarrow> \<not> (m \<and> truthy (field values ''gmat_total''))"
    using truthy_not_empty by blast
  have t1: "hasLanguageScore u \<Longrightarrow> \<exists>g' m' v. onFinish (toggleLanguageScore u)
      = handleSubmit False g' m' v"
    unfolding onFinish_def toggleLanguageScore_def by auto
  have t2: "hasGRE u \<Longrightarrow> \<exists>l' m' v. onFinish (toggleGRE u) = handleSubmit l' False m' v"
    unfolding onFinish_def toggleGRE_def by auto
  have t3: "hasGMAT u \<Longrightarrow> \<exists>l' g' v. onFinish (toggleGMAT u) = handleSubmit l' g' False v"
    unfolding onFinish_def toggleGMAT_def by auto
  have p1: "\<not> (l \<and> \<not> empty_input (field values ''language_test_type'')
          \<and> \<not> empty_input (field values ''language_total_score''))
      \<longrightarrow> language_test_type (handleSubmit l g m values) = None
        \<and> language_total_score (handleSubmit l g m values) = None
        \<and> language_reading (handleSubmit l g m values) = None
        \<and> language_listening (handleSubmit l g m values) = None
        \<and> language_speaking (handleSubmit l g m values) = None
        \<and> language_writing (handleSubmit l g m values) = None"
    using c1 language_off by blast
  have p2: "\<not> (g \<and> \<not> empty_input (field values ''gre_total''))
      \<longrightarrow> gre_total (handleSubmit l g m values) = None
        \<and> gre_verbal (handleSubmit l g m values) = None
        \<and> gre_quantitative (handleSubmit l g m values) = None
        \<and> gre_writing (handleSubmit l g m values) = None"
    using c2 gre_off by blast
  have p3: "\<not> (m \<and> \<not> empty_input (field values ''gmat_total''))
      \<longrightarrow> gmat_total (handleSubmit l g m values) = None"
    using c3 gmat_off by blast
  have p4: "hasLanguageScore u
      \<longrightarrow> language_test_type (onFinish (toggleLanguageScore u)) = None
        \<and> language_total_score (onFinish (toggleLanguageScore u)) = None
        \<and> language_reading (onFinish (toggleLanguageScore u)) = None
        \<and> language_listening (onFinish (toggleLanguageScore u)) = None
        \<and> language_speaking (onFinish (toggleLanguageScore u)) = None
        \<and> language_writing (onFinish (toggleLanguageScore u)) = None"
  proof
    assume "hasLanguageScore u"
    then obtain g' m' v where "onFinish (toggleLanguageScore u) = handleSubmit False g' m' v"
      using t1 by blast
    then show "language_test_type (onFinish (toggleLanguageScore u)) = None
        \<and> language_total_score (onFinish (toggleLanguageScore u)) = None
        \<and> language_reading (onFinish (toggleLanguageScore u)) = None
        \<and> language_listening (onFinish (toggleLanguageScore u)) = None
        \<and> language_speaking (onFinish (toggleLanguageScore u)) = None
        \<and> language_writing (onFinish (toggleLanguageScore u)) = None"
      using language_off[of False v g' m'] by simp
  qed
  have p5: "hasGRE u
      \<longrightarrow> gre_total (onFinish (toggleGRE u)) = None
        \<and> gre_verbal (onFinish (toggleGRE u)) = None
        \<and> gre_quantitative (onFinish (toggleGRE u)) = None
        \<and> gre_writing (onFinish (toggleGRE u)) = None"
  proof
    assume "hasGRE u"
    then obtain l' m' v where "onFinish (toggleGRE u) = handleSubmit l' False m' v"
      using t2 by blast
    then show "gre_total (onFinish (toggleGRE u)) = None
        \<and> gre_verbal (onFinish (toggleGRE u)) = None
        \<and> gre_quantitative (onFinish (toggleGRE u)) = None
        \<and> gre_writing (onFinish (toggleGRE u)) = None"
      using gre_off[of False v l' m'] by simp
  qed
  have p6: "hasGMAT u \<longrightarrow> gmat_total (onFinish (toggleGMAT u)) = None"
  proof
    assume "hasGMAT u"
    then obtain l' g' v where "onFinish (toggleGMAT u) = handleSubmit l' g' False v"
      using t3 by blast
    then show "gmat_total (onFinish (toggleGMAT u)) = None"
      using gmat_off[of False v l' g'] by simp
  qed
  from p1 p2 p3 p4 p5 p6 show ?thesis
    by (intro conjI)
qed

theorem optional_blocks_gated_witness:
  "language_test_type (handleSubmit False False False stale_values) = None
   \<and> language_total_score (handleSubmit False False False stale_values) = None
   \<and> gre_total (handleSubmit False False False stale_values) = None
   \<and> gmat_total (handleSubmit False False False stale_values) = None
   \<and> empty_input (field (stale_values(''gmat_total'' \<mapsto> JNull)) ''gmat_total'')
   \<and> gmat_total (handleSubmit True True True (stale_values(''gmat_total'' \<mapsto> JNull))) = None
   \<and> hasGRE gre_form
   \<and> gre_total (onFinish (toggleGRE gre_form)) = None
   \<and> gre_writing (onFinish (toggleGRE gre_form)) = None"
proof -
  have blank: "empty_input (field (stale_values(''gmat_total'' \<mapsto> JNull)) ''gmat_total'')"
    by (simp add: field_def empty_input_def)
  have on: "hasGRE gre_form"
    by (simp add: gre_form_def)
  show ?thesis
    using optional_blocks_gated[of False stale_values False False gre_form]
      optional_blocks_gated[of True "stale_values(''gmat_total'' \<mapsto> JNull)" True True gre_form]
      blank on
    by simp
qed

text \<open>
  Claim C5. In every assembled profile, if the total score of the language test is
  present then the test type is present too; both then hold a value that is neither
  \<open>undefined\<close> nor empty.
\<close>

theorem language_total_needs_test_type:
  "(language_total_score (handleSubmit l g m values) \<noteq> None
      \<longrightarrow> language_test_type (handleSubmit l g m values) \<noteq> None)
   \<and> (\<forall>score. language_total_score (handleSubmit l g m values) = Some score
        \<longrightarrow> truthy score
          \<and> (\<exists>family. language_test_type (handleSubmit l g m values) = Some family
                \<and> truthy family))"
  by (auto simp: handleSubmit_def Let_def)

theorem language_total_needs_test_type_witness:
  "language_total_score (handleSubmit True False False stale_values) = Some (JNum 105)
   \<and> language_test_type (handleSubmit True False False stale_values) \<noteq> None
   \<and> language_test_type (handleSubmit True False False stale_values) = Some (JStr ''TOEFL'')"
proof -
  have total: "language_total_score (handleSubmit True False False stale_values)
      = Some (JNum 105)"
    by (simp add: handleSubmit_def Let_def field_def stale_values_def)
  have family: "language_test_type (handleSubmit True False False stale_values)
      = Some (JStr ''TOEFL'')"
    by (simp add: handleSubmit_def Let_def field_def stale_values_def)
  show ?thesis
    using language_total_needs_test_type[of True False False stale_values] total family
    by simp
qed

text \<open>
  Claim C10. Every assembled profile has the three experience fields, and each holds
  an array: the list of the form when it has entries, the empty array when the user
  added none (the form then holds \<open>undefined\<close> for the list).
\<close>

theorem experience_lists_present:
  "(list_input (field values ''research_experiences'')
      \<longrightarrow> (\<exists>entries. research_experiences (handleSubmit l g m values) = Some (JArr entries)))
   \<and> (list_input (field values ''internship_experiences'')
      \<longrightarrow> (\<exists>entries. internship_experiences (handleSubmit l g m values) = Some (JArr entries)))
   \<and> (list_input (field values ''other_experiences'')
      \<longrightarrow> (\<exists>entries. other_experiences (handleSubmit l g m values) = Some (JArr entries)))
   \<and> (\<not> truthy (field values ''research_experiences'')
      \<longrightarrow> research_experiences (handleSubmit l g m values) = Some (JArr []))
   \<and> (\<not> truthy (field values ''internship_experiences'')
      \<longrightarrow> internship_experiences (handleSubmit l g m values) = Some (JArr []))
   \<and> (\<not> truthy (field values ''other_experiences'')
      \<longrightarrow> other_experiences (handleSubmit l g m values) = Some (JArr []))"
proof -
  have kept: "list_input v \<Longrightarrow> \<exists>entries. js_or v (JArr []) = JArr entries" for v
    by (cases v) (simp_all add: js_or_def)
  have dflt: "\<not> truthy v \<Longrightarrow> js_or v (JArr []) = JArr []" for v
    by (simp add: js_or_def)
  have research: "research_experiences (handleSubmit l g m values)
      = Some (js_or (field values ''research_experiences'') (JArr []))"
    by (simp add: handleSubmit_def Let_def)
  have internship: "internship_experiences (handleSubmit l g m values)
      = Some (js_or (field values ''internship_experiences'') (JArr []))"
    by (simp add: handleSubmit_def Let_def)
  have other: "other_experiences (handleSubmit l g m values)
      = Some (js_or (field values ''other_experiences'') (JArr []))"
    by (simp add: handleSubmit_def Let_def)
  show ?thesis
    unfolding research internship other
    using kept dflt by blast
qed

theorem experience_lists_present_witness:
  "list_input (field stale_values ''research_experiences'')
   \<and> research_experiences (handleSubmit False False False stale_values) = Some one_research
   \<and> list_input (field stale_values ''other_experiences'')
   \<and> \<not> truthy (field stale_values ''other_experiences'')
   \<and> other_experiences (handleSubmit False False False stale_values) = Some (JArr [])"
proof -
  have research: "field stale_values ''research_experiences'' = one_research"
    by (simp add: field_def stale_values_def)
  have other: "field stale_values ''other_experiences'' = JUndefined"
    by (simp add: field_def stale_values_def)
  have listed: "list_input one_research" "list_input JUndefined" "\<not> truthy JUndefined"
    by (simp_all add: one_research_def)
  have kept: "research_experiences (handleSubmit False False False stale_values)
      = Some one_research"
    by (simp add: handleSubmit_def Let_def research js_or_def one_research_def)
  from experience_lists_present[of stale_values False False False]
  have "other_experiences (handleSubmit False False False stale_values) = Some (JArr [])"
    unfolding other using listed by blast
  then show ?thesis
    unfolding research other using listed kept by blast
qed

text \<open>
  The GRE block of the form renders no input for the verbal and the quantitative
  sub-score, so no submission carries a value for either.
\<close>

lemma restricted_field:
  "field (m |` A) k = (if k \<in> A then field m k else JUndefined)"
  by (simp add: field_def restrict_map_def)

lemma gre_verbal_not_rendered: "''gre_verbal'' \<notin> set (form_items u)"
  by (simp add: form_items_def)

lemma gre_quantitative_not_rendered: "''gre_quantitative'' \<notin> set (form_items u)"
  by (simp add: form_items_def)

lemma onFinish_gre_subscores:
  "gre_verbal (onFinish u) \<in> {None, Some JUndefined}
   \<and> gre_quantitative (onFinish u) \<in> {None, Some JUndefined}"
  by (simp add: onFinish_def handleSubmit_def Let_def restricted_field
        gre_verbal_not_rendered gre_quantitative_not_rendered)

lemma gre_form_items:
  "form_items gre_form =
     [''undergraduate_university'', ''undergraduate_major'', ''gpa'', ''gpa_scale'',
      ''graduation_year'', ''gre_total'', ''gre_writing'', ''target_countries'',
      ''target_majors'', ''target_degree_type'', ''research_experiences'',
      ''internship_experiences'', ''other_experiences'']"
  by (simp add: form_items_def gre_form_def)

lemma gre_form_total: "store gre_form ''gre_total'' = Some (JNum 320)"
  by (simp add: gre_form_def)

lemma gre_form_writing: "store gre_form ''gre_writing'' = Some (JNum 4)"
  by (simp add: gre_form_def)

lemma gre_block_assigned:
  "g \<Longrightarrow> truthy (field v ''gre_total'') \<Longrightarrow>
   gre_total (handleSubmit l g m v) = Some (field v ''gre_total'')
   \<and> gre_verbal (handleSubmit l g m v) = Some (field v ''gre_verbal'')
   \<and> gre_quantitative (handleSubmit l g m v) = Some (field v ''gre_quantitative'')
   \<and> gre_writing (handleSubmit l g m v) = Some (field v ''gre_writing'')"
  by (simp add: handleSubmit_def Let_def)

text \<open>
  Claim C6, evaluated on a form whose GRE block is switched on and completely filled
  in. The claim says that the profile then carries the total score and all three
  sub-scores. The profile carries the total score and the writing score; its verbal and
  quantitative fields are assigned \<open>undefined\<close>.
\<close>

theorem gre_block_lacks_two_subscores:
  "hasGRE gre_form
   \<and> gre_total (onFinish gre_form) = Some (JNum 320)
   \<and> gre_writing (onFinish gre_form) = Some (JNum 4)
   \<and> gre_verbal (onFinish gre_form) = Some JUndefined
   \<and> gre_quantitative (onFinish gre_form) = Some JUndefined"
proof -
  let ?submitted = "store gre_form |` set (form_items gre_form)"
  have total: "field ?submitted ''gre_total'' = JNum 320"
    unfolding restricted_field gre_form_items by (simp add: field_def gre_form_total)
  have writing: "field ?submitted ''gre_writing'' = JNum 4"
    unfolding restricted_field gre_form_items by (simp add: field_def gre_form_writing)
  have verbal: "field ?submitted ''gre_verbal'' = JUndefined"
    by (simp add: restricted_field gre_verbal_not_rendered)
  have quantitative: "field ?submitted ''gre_quantitative'' = JUndefined"
    by (simp add: restricted_field gre_quantitative_not_rendered)
  have on: "hasGRE gre_form"
    by (simp add: gre_form_def)
  have filled: "truthy (field ?submitted ''gre_total'')"
    unfolding total by simp
  show ?thesis
    using gre_block_assigned[OF on filled] on
    unfolding onFinish_def total writing verbal quantitative by simp
qed


section \<open>The orchestrator\<close>

lemma read_opt_own: "read_opt v k = Some (own v k)"
  by (cases v) (simp_all add: read_opt_def read_prop_def nullish_def)

lemma errorMessage_eq:
  "\<not> nullish error \<Longrightarrow>
   errorMessage error =
     Some (if truthy (own (own (own error ''response'') ''data'') ''detail'')
           then own (own (own error ''response'') ''data'') ''detail''
           else if truthy (own error ''message'') then own error ''message''
           else JStr analysis_failed_text)"
  by (simp add: errorMessage_def read_opt_own read_prop_def)

lemma analysis_failed_text_nonempty: "analysis_failed_text \<noteq> []"
  by (simp add: analysis_failed_text_def)

lemma truthy_defined: "truthy v \<Longrightarrow> v \<noteq> JUndefined \<and> v \<noteq> JNull \<and> v \<noteq> JStr []"
  by (cases v) auto

lemma handleFormSubmit_failure:
  "post ''/api/analyze'' ub = Inl error \<Longrightarrow> errorMessage error = Some m \<Longrightarrow>
   handleFormSubmit post ub s = s\<lparr>loading := False, messages := messages s @ [Error m]\<rparr>"
  by (simp add: handleFormSubmit_def analyzeUserBackground_def Let_def)

lemma handleFormSubmit_success:
  "post ''/api/analyze'' ub = Inr report \<Longrightarrow>
   handleFormSubmit post ub s =
     s\<lparr>loading := False, analysisReport := Some report, currentStep := ReportStep,
       messages := messages s @ [Success (JStr analysis_done_text)]\<rparr>"
  by (simp add: handleFormSubmit_def analyzeUserBackground_def Let_def)

lemma reachable_invariant:
  "reachable ss \<Longrightarrow>
     \<not> loading (app ss)
     \<and> (currentStep (app ss) = FormStep \<longrightarrow> analysisReport (app ss) = None \<and> form ss \<noteq> None)
     \<and> (currentStep (app ss) = ReportStep \<longrightarrow> analysisReport (app ss) \<noteq> None \<and> form ss = None)"
proof (induction rule: reachable.induct)
  case reach_init
  show ?case by (simp add: session_init_def App_init_def)
next
  case (reach_edit ss f)
  then show ?case by (auto simp: edit_def)
next
  case (reach_submit ss post)
  show ?case
  proof (cases "form ss")
    case None
    then show ?thesis using reach_submit.IH by (simp add: submit_def)
  next
    case (Some u)
    then have st: "currentStep (app ss) = FormStep" "analysisReport (app ss) = None"
      using reach_submit.IH by (cases "currentStep (app ss)"; simp)+
    show ?thesis
    proof (cases "post ''/api/analyze'' (onFinish u)")
      case (Inr report)
      then show ?thesis using Some st
        by (simp add: submit_def Let_def handleFormSubmit_success mount_def render_def)
    next
      case (Inl error)
      then show ?thesis using Some st
        by (cases "errorMessage error")
           (simp_all add: submit_def Let_def handleFormSubmit_def analyzeUserBackground_def
              mount_def render_def)
    qed
  qed
next
  case (reach_back ss)
  then show ?case
    by (cases "currentStep (app ss)"; cases "analysisReport (app ss)")
       (auto simp: press_back_def render_def handleBackToForm_def mount_def Let_def)
qed

text \<open>
  Claim C3. When the analysis call fails, one message is shown. It is the \<open>detail\<close>
  of the remote response when the response has one, otherwise the message of the error
  when it has one, otherwise the fixed fallback text; it is never \<open>undefined\<close>, \<open>null\<close>
  or the empty string. The caught value is an error object of the HTTP client, hence
  neither \<open>undefined\<close> nor \<open>null\<close>.
\<close>

theorem error_message_precedence:
  assumes "\<not> nullish error"
  shows "\<exists>m. errorMessage error = Some m
           \<and> m = (if truthy (own (own (own error ''response'') ''data'') ''detail'')
                  then own (own (own error ''response'') ''data'') ''detail''
                  else if truthy (own error ''message'') then own error ''message''
                  else JStr analysis_failed_text)
           \<and> truthy m \<and> m \<noteq> JUndefined \<and> m \<noteq> JNull \<and> m \<noteq> JStr []
           \<and> (post ''/api/analyze'' ub = Inl error
                \<longrightarrow> messages (handleFormSubmit post ub s) = messages s @ [Error m])"
proof -
  let ?m = "if truthy (own (own (own error ''response'') ''data'') ''detail'')
            then own (own (own error ''response'') ''data'') ''detail''
            else if truthy (own error ''message'') then own error ''message''
            else JStr analysis_failed_text"
  have em: "errorMessage error = Some ?m"
    using assms by (rule errorMessage_eq)
  have t: "truthy ?m"
    by (simp add: analysis_failed_text_nonempty)
  have shown: "post ''/api/analyze'' ub = Inl error
      \<longrightarrow> messages (handleFormSubmit post ub s) = messages s @ [Error ?m]"
    using em by (simp add: handleFormSubmit_failure)
  show ?thesis
    using em t truthy_defined[OF t] shown by blast
qed

theorem error_message_precedence_witness:
  "\<not> nullish quota_error \<and> \<not> nullish timeout_error \<and> \<not> nullish (JObj [])
   \<and> errorMessage quota_error = Some (JStr ''quota exceeded'')
   \<and> errorMessage timeout_error = Some (JStr ''timeout of 300000ms exceeded'')
   \<and> errorMessage (JObj []) = Some (JStr analysis_failed_text)
   \<and> messages (handleFormSubmit post_timeout (onFinish gre_form) App_init)
       = [Error (JStr ''timeout of 300000ms exceeded'')]"
proof -
  have nn: "\<not> nullish quota_error" "\<not> nullish timeout_error" "\<not> nullish (JObj [])"
    by (simp_all add: nullish_def quota_error_def timeout_error_def)
  have fails: "post_timeout ''/api/analyze'' (onFinish gre_form) = Inl timeout_error"
    by (simp add: post_timeout_def)
  have none: "messages App_init = []"
    by (simp add: App_init_def)
  from error_message_precedence[OF nn(1), of post_timeout "onFinish gre_form" App_init]
  have q: "errorMessage quota_error = Some (JStr ''quota exceeded'')"
    by (auto simp: quota_error_def)
  from error_message_precedence[OF nn(2), of post_timeout "onFinish gre_form" App_init]
  have t: "errorMessage timeout_error = Some (JStr ''timeout of 300000ms exceeded'')
           \<and> messages (handleFormSubmit post_timeout (onFinish gre_form) App_init)
               = [Error (JStr ''timeout of 300000ms exceeded'')]"
    using fails none by (auto simp: timeout_error_def)
  from error_message_precedence[OF nn(3), of post_timeout "onFinish gre_form" App_init]
  have f: "errorMessage (JObj []) = Some (JStr analysis_failed_text)"
    by auto
  show ?thesis using nn q t f by simp
qed

text \<open>
  Claim C4. The session starts on the form with no report stored. A submission whose
  analysis succeeds leads to the report screen, holding exactly the returned report. A
  submission whose analysis fails ends on the form with no report stored, one error
  message added and the form, with what the user entered, still in place. The back
  button of the report screen leads to the form and resets the stored report.
\<close>

theorem orchestrator_state_machine:
  "currentStep (app session_init) = FormStep
   \<and> analysisReport (app session_init) = None
   \<and> (form ss = Some u \<and> post ''/api/analyze'' (onFinish u) = Inr report
        \<longrightarrow> currentStep (app (submit post ss)) = ReportStep
          \<and> analysisReport (app (submit post ss)) = Some report
          \<and> render (app (submit post ss)) = AnalysisReportScreen report)
   \<and> (reachable ss \<and> form ss = Some u \<and> post ''/api/analyze'' (onFinish u) = Inl error
        \<and> \<not> nullish error
        \<longrightarrow> currentStep (app (submit post ss)) = FormStep
          \<and> analysisReport (app (submit post ss)) = None
          \<and> (\<exists>m. messages (app (submit post ss)) = messages (app ss) @ [Error m])
          \<and> form (submit post ss) = Some u)
   \<and> (render (app ss) = AnalysisReportScreen report
        \<longrightarrow> currentStep (app (press_back ss)) = FormStep
          \<and> analysisReport (app (press_back ss)) = None)"
proof (intro conjI impI)
  show "currentStep (app session_init) = FormStep"
    and "analysisReport (app session_init) = None"
    by (simp_all add: session_init_def App_init_def)
next
  assume ok: "form ss = Some u \<and> post ''/api/analyze'' (onFinish u) = Inr report"
  then have now: "app (submit post ss)
      = (app ss)\<lparr>loading := False, analysisReport := Some report, currentStep := ReportStep,
           messages := messages (app ss) @ [Success (JStr analysis_done_text)]\<rparr>"
    by (simp add: submit_def Let_def handleFormSubmit_success)
  show "currentStep (app (submit post ss)) = ReportStep"
    and "analysisReport (app (submit post ss)) = Some report"
    and "render (app (submit post ss)) = AnalysisReportScreen report"
    unfolding now by (simp_all add: render_def)
next
  assume failed: "reachable ss \<and> form ss = Some u
      \<and> post ''/api/analyze'' (onFinish u) = Inl error \<and> \<not> nullish error"
  then obtain m where m: "errorMessage error = Some m"
    using errorMessage_eq by blast
  from failed have inv: "currentStep (app ss) = FormStep" "analysisReport (app ss) = None"
    using reachable_invariant[of ss] by (cases "currentStep (app ss)"; simp)+
  have now: "app (submit post ss)
      = (app ss)\<lparr>loading := False, messages := messages (app ss) @ [Error m]\<rparr>"
    using failed m by (simp add: submit_def Let_def handleFormSubmit_failure)
  show "currentStep (app (submit post ss)) = FormStep"
    and "analysisReport (app (submit post ss)) = None"
    and "\<exists>m. messages (app (submit post ss)) = messages (app ss) @ [Error m]"
    unfolding now using inv by simp_all
  show "form (submit post ss) = Some u"
    using failed m inv
    by (simp add: submit_def Let_def handleFormSubmit_failure mount_def render_def)
next
  assume shown: "render (app ss) = AnalysisReportScreen report"
  then show "currentStep (app (press_back ss)) = FormStep"
    and "analysisReport (app (press_back ss)) = None"
    by (simp_all add: press_back_def Let_def handleBackToForm_def)
qed

theorem orchestrator_state_machine_witness:
  "reachable filled_session
   \<and> form filled_session = Some gre_form
   \<and> post_ok ''/api/analyze'' (onFinish gre_form) = Inr example_report
   \<and> post_timeout ''/api/analyze'' (onFinish gre_form) = Inl timeout_error
   \<and> \<not> nullish timeout_error
   \<and> render (app (submit post_ok filled_session)) = AnalysisReportScreen example_report
   \<and> analysisReport (app (submit post_ok filled_session)) = Some example_report
   \<and> currentStep (app (submit post_timeout filled_session)) = FormStep
   \<and> analysisReport (app (submit post_timeout filled_session)) = None
   \<and> (\<exists>m. messages (app (submit post_timeout filled_session)) = [Error m])
   \<and> form (submit post_timeout filled_session) = Some gre_form
   \<and> currentStep (app (press_back (submit post_ok filled_session))) = FormStep
   \<and> analysisReport (app (press_back (submit post_ok filled_session))) = None"
proof -
  have start: "reachable filled_session"
    unfolding filled_session_def by (rule reach_edit) (rule reach_init)
  have hyps: "form filled_session = Some gre_form"
    "post_ok ''/api/analyze'' (onFinish gre_form) = Inr example_report"
    "post_timeout ''/api/analyze'' (onFinish gre_form) = Inl timeout_error"
    "\<not> nullish timeout_error"
    by (simp_all add: filled_session_def edit_def session_init_def post_ok_def
          post_timeout_def nullish_def timeout_error_def)
  have none: "messages (app filled_session) = []"
    by (simp add: filled_session_def edit_def session_init_def App_init_def)
  note success = orchestrator_state_machine[of filled_session gre_form post_ok
      example_report timeout_error]
  note failure = orchestrator_state_machine[of filled_session gre_form post_timeout
      example_report timeout_error]
  have shown: "render (app (submit post_ok filled_session)) = AnalysisReportScreen example_report"
    using success hyps by blast
  note returned = orchestrator_state_machine[of "submit post_ok filled_session" gre_form
      post_ok example_report timeout_error]
  show ?thesis
    using start hyps success failure returned shown none by auto
qed


section \<open>The report renderer\<close>

text \<open>
  Claim C7. For a report without a background-improvement block the panel is an
  alert with the notice that the suggestions are unavailable, and the notice is not
  empty. For a report with the block the panel shows the action plan in its order, each
  entry with its time frame, action and goal, and after it the strategy summary.
\<close>

theorem background_improvement_panel:
  "(background_improvement report = None
      \<longrightarrow> renderBackgroundImprovement report
            = Elem ''Alert'' [(''message'', unavailable_text), (''type'', ''info'')] []
        \<and> unavailable_text \<noteq> [])
   \<and> (\<forall>improvement. background_improvement report = Some improvement
        \<longrightarrow> (\<exists>props divider card.
               renderBackgroundImprovement report
                 = Elem ''Space'' props
                     [Elem ''Timeline'' [] (map plan_item (action_plan improvement)),
                      divider, card]
               \<and> texts divider = []
               \<and> texts card = [strategy_summary improvement])
          \<and> texts (renderBackgroundImprovement report)
              = concat (map (\<lambda>plan. [timeframe plan, action_label, action plan,
                                       goal_label, goal plan])
                          (action_plan improvement))
                @ [strategy_summary improvement])"
proof -
  have item: "texts (plan_item plan)
      = [timeframe plan, action_label, action plan, goal_label, goal plan]" for plan
    by (simp add: plan_item_def)
  have items: "concat (map texts (map plan_item plans))
      = concat (map (\<lambda>plan. [timeframe plan, action_label, action plan,
                               goal_label, goal plan]) plans)" for plans
    by (induction plans) (simp_all add: item)
  show ?thesis
    by (auto simp: renderBackgroundImprovement_def unavailable_text_def items
          simp del: map_map)
qed

theorem background_improvement_panel_witness:
  "background_improvement (example_report\<lparr>background_improvement := None\<rparr>) = None
   \<and> renderBackgroundImprovement (example_report\<lparr>background_improvement := None\<rparr>)
       = Elem ''Alert'' [(''message'', unavailable_text), (''type'', ''info'')] []
   \<and> background_improvement example_report
       = Some \<lparr>action_plan = example_plans, strategy_summary = ''Research first''\<rparr>
   \<and> texts (renderBackgroundImprovement example_report)
       = [''Month 1-3'', action_label, ''Retake the language test'', goal_label,
          ''Total score above 100'',
          ''Month 4-6'', action_label, ''Join a research project'', goal_label,
          ''One submitted paper'',
          ''Research first'']"
  using background_improvement_panel[of "example_report\<lparr>background_improvement := None\<rparr>"]
    background_improvement_panel[of example_report]
  by (simp add: example_report_def example_plans_def)

text \<open>
  Claim C9. The radar chart of the first tab does not depend on the report: for any
  two reports the chart has the same five labels and the same five values.
\<close>

theorem radar_independent_of_report:
  "radars (competitiveness_tab report1) = radars (competitiveness_tab report2)
   \<and> radars (competitiveness_tab report1) = [(radarData report1, radarOptions report1)]
   \<and> radarData report1 = radarData report2
   \<and> labels (radarData report1)
       = [label_academic, label_language, label_research, label_internship,
          label_institution]
   \<and> map data (datasets (radarData report1)) = [75, 60, 45, 50, 80] # []"
  by (simp add: competitiveness_tab_def radarData_def radarOptions_def)


section \<open>The document exporter\<close>

text \<open>
  Claim C8. When the capture throws, in \<open>html2canvas\<close> or in the encoding of the
  canvas, the error is caught and written to the console, no file is saved, and the
  session is as it was: the user stays on the screen shown before.
\<close>

theorem capture_failure_writes_nothing:
  assumes "html2canvas env el
             \<lparr>useCORS = True, allowTaint = True,
              opt_width = scrollWidth el * 2, opt_height = scrollHeight el * 2\<rparr> = Inl error
           \<or> (\<exists>cv. html2canvas env el
                      \<lparr>useCORS = True, allowTaint = True,
                       opt_width = scrollWidth el * 2, opt_height = scrollHeight el * 2\<rparr>
                    = Inr cv
                  \<and> toDataURL env cv ''image/png'' = Inl error)"
  shows "\<exists>w'. downloadPDF env (Some el) w = Some w'
           \<and> saved w' = saved w
           \<and> ui w' = ui w
           \<and> render (app (ui w')) = render (app (ui w))
           \<and> console_errors w' = console_errors w @ [(pdf_failed_text, error)]"
  using assms by (auto simp: downloadPDF_def)

theorem capture_failure_writes_nothing_witness:
  "html2canvas browser_tainted report_element
     \<lparr>useCORS = True, allowTaint = True,
      opt_width = scrollWidth report_element * 2,
      opt_height = scrollHeight report_element * 2\<rparr> = Inl (JStr ''SecurityError'')
   \<and> (\<exists>w'. downloadPDF browser_tainted (Some report_element) report_world = Some w'
          \<and> saved w' = []
          \<and> render (app (ui w')) = AnalysisReportScreen example_report
          \<and> console_errors w' = [(pdf_failed_text, JStr ''SecurityError'')])"
proof -
  have thrown: "html2canvas browser_tainted report_element
     \<lparr>useCORS = True, allowTaint = True,
      opt_width = scrollWidth report_element * 2,
      opt_height = scrollHeight report_element * 2\<rparr> = Inl (JStr ''SecurityError'')"
    by (simp add: browser_tainted_def)
  have shown: "render (app (ui report_world)) = AnalysisReportScreen example_report"
    by (simp add: report_world_def submit_def filled_session_def edit_def session_init_def
          Let_def handleFormSubmit_def analyzeUserBackground_def post_ok_def render_def
          App_init_def)
  have start: "saved report_world = []" "console_errors report_world = []"
    by (simp_all add: report_world_def)
  from capture_failure_writes_nothing[of browser_tainted report_element
      "JStr ''SecurityError''" report_world, OF disjI1, OF thrown]
  show ?thesis using thrown shown start by auto
qed

text \<open>
  The number of pages: one more than the number of whole page heights in the image
  height. This is the ceiling of the quotient unless the image height is a multiple of
  the page height, where it is one more.
\<close>

lemma add_pages_count:
  "length (pages (add_pages heightLeft imgHeight imgData doc)) =
     length (pages doc) + nat (\<lfloor>heightLeft / 295\<rfloor> + 1)"
proof (induction heightLeft imgHeight imgData doc rule: add_pages.induct)
  case (1 heightLeft imgHeight imgData doc)
  show ?case
  proof (cases "heightLeft \<ge> 0")
    case True
    have fl: "\<lfloor>(heightLeft - pageHeight) / 295\<rfloor> = \<lfloor>heightLeft / 295\<rfloor> - 1"
      unfolding pageHeight_def by (simp add: diff_divide_distrib)
    have nn: "0 \<le> \<lfloor>heightLeft / 295\<rfloor>"
      using True by simp
    then have sc: "nat (\<lfloor>heightLeft / 295\<rfloor> + 1) = Suc (nat \<lfloor>heightLeft / 295\<rfloor>)"
      by linarith
    show ?thesis
      using True nn "1.IH"[OF True refl refl refl]
      by (subst add_pages.simps) (simp add: Let_def fl sc pages_def addPage_def addImage_def)
  next
    case False
    then have "heightLeft / 295 < 0"
      by simp
    then have neg: "\<lfloor>heightLeft / 295\<rfloor> < 0"
      by linarith
    from neg have "\<lfloor>heightLeft / 295\<rfloor> + 1 \<le> 0"
      by linarith
    then have zero: "nat (\<lfloor>heightLeft / 295\<rfloor> + 1) = 0"
      by (rule nat_le_0)
    have stop: "add_pages heightLeft imgHeight imgData doc = doc"
      using False by (subst add_pages.simps) simp
    show ?thesis
      unfolding stop zero by simp
  qed
qed

lemma paginate_count:
  "length (pages (paginate imgData imgHeight)) = nat \<lfloor>imgHeight / 295\<rfloor> + 1"
proof -
  have fl: "\<lfloor>(imgHeight - pageHeight) / 295\<rfloor> + 1 = \<lfloor>imgHeight / 295\<rfloor>"
    unfolding pageHeight_def by (simp add: diff_divide_distrib)
  have "length (pages (paginate imgData imgHeight))
      = 1 + nat (\<lfloor>(imgHeight - pageHeight) / 295\<rfloor> + 1)"
    unfolding paginate_def Let_def add_pages_count
    by (simp add: pages_def jsPDF_def addImage_def)
  then show ?thesis
    unfolding fl by simp
qed

lemma ceiling_non_integer:
  fixes x :: real
  assumes "x \<notin> \<int>"
  shows "\<lceil>x\<rceil> = \<lfloor>x\<rfloor> + 1"
proof -
  have "x \<noteq> of_int \<lfloor>x\<rfloor>"
    using assms by (metis Ints_of_int)
  then show ?thesis
    by (simp add: ceiling_altdef)
qed

lemma paginate_count_ceiling:
  assumes "0 < imgHeight" and "imgHeight / 295 \<notin> \<int>"
  shows "int (length (pages (paginate imgData imgHeight))) = \<lceil>imgHeight / pageHeight\<rceil>"
proof -
  have "0 \<le> \<lfloor>imgHeight / 295\<rfloor>"
    using assms(1) by simp
  then show ?thesis
    unfolding paginate_count pageHeight_def ceiling_non_integer[OF assms(2)] by simp
qed

lemma paginate_count_multiple:
  "int (length (pages (paginate imgData (295 * real n)))) = \<lceil>295 * real n / pageHeight\<rceil> + 1"
  unfolding paginate_count pageHeight_def by simp

lemma paginate_590:
  "pages (paginate d 590) =
     [Image d ''PNG'' 0 0 210 590] # [Image d ''PNG'' 0 (-295) 210 590]
       # [Image d ''PNG'' 0 (-590) 210 590] # []"
  unfolding paginate_def Let_def
  apply (subst add_pages.simps, simp add: Let_def pageHeight_def)
  apply (subst add_pages.simps, simp add: Let_def pageHeight_def)
  apply (subst add_pages.simps, simp add: Let_def pageHeight_def)
  apply (simp add: pages_def jsPDF_def addImage_def addPage_def imgWidth_def)
  done

text \<open>
  Claim C1, evaluated on a capture of 420 by 1180 pixels, whose image is 590 mm high
  on the page. The claim says that an image of height 590 gives exactly 2 pages, the
  ceiling of 590 / 295. The saved document has 3 pages; on the third the image is
  drawn at \<open>y = -590\<close>, entirely above the page.
\<close>

theorem exact_multiple_gets_extra_page:
  "downloadPDF browser_ok (Some report_element) report_world
     = Some (report_world
              \<lparr>saved := [(pdf_file_name, paginate ''data:image/png;base64,'' 590)]\<rparr>)
   \<and> pages (paginate ''data:image/png;base64,'' 590)
       = [Image ''data:image/png;base64,'' ''PNG'' 0 0 210 590]
          # [Image ''data:image/png;base64,'' ''PNG'' 0 (-295) 210 590]
          # [Image ''data:image/png;base64,'' ''PNG'' 0 (-590) 210 590] # []
   \<and> length (pages (paginate ''data:image/png;base64,'' 590)) = 3
   \<and> \<lceil>590 / pageHeight\<rceil> = 2"
proof -
  have nothing_saved: "saved report_world = []"
    by (simp add: report_world_def)
  have run: "downloadPDF browser_ok (Some report_element) report_world
     = Some (report_world
              \<lparr>saved := [(pdf_file_name, paginate ''data:image/png;base64,'' 590)]\<rparr>)"
    by (simp add: downloadPDF_def browser_ok_def report_element_def Let_def imgWidth_def
          nothing_saved)
  have ceil: "\<lceil>590 / pageHeight\<rceil> = 2"
    by (simp add: pageHeight_def)
  show ?thesis
    using run ceil by (simp add: paginate_590)
qed

end
